theory Spec2Isabelle
  imports Complex_Main "HOL-Library.Word"
begin

unbundle bit_operations_syntax

section \<open>Machine integers\<close>

text \<open>
  A C \<^verbatim>\<open>int\<close> is 32 bits wide, two's complement; a value stored into one wraps around.
  \<^verbatim>\<open>size_t\<close> is 64 bits wide and unsigned; a value converted to it is taken modulo \<open>2 ^ 64\<close>.
\<close>

definition int32 :: "int \<Rightarrow> int" where
  "int32 i = signed_take_bit 31 i"

definition size_t :: "int \<Rightarrow> int" where
  "size_t i = i mod 2 ^ 64"

section \<open>IEEE 754 binary floating point\<close>

text \<open>
  The program computes in \<^verbatim>\<open>float\<close> (binary32) and, where a \<^verbatim>\<open>double\<close> constant takes part,
  in binary64. A value is a rational number, a negative zero, an infinity or a NaN;
  \<open>Finite 0\<close> is the positive zero. Every arithmetic operation computes the exact result and
  rounds it to the nearest value of the format, ties to even (each operation rounded to its own
  type, no fused multiply-add). The values a C program can hold are those that rounding returns;
  the datatype has more (any rational), and the theorems below hold for those as well.
\<close>

datatype float = Finite rat | MinusZero | PlusInf | MinusInf | NaN

text \<open>The number of binary digits of a positive integer.\<close>

function bitlen :: "int \<Rightarrow> int" where
  "bitlen n = (if n \<le> 0 then 0 else 1 + bitlen (n div 2))"
  by pat_completeness auto
termination
  by (relation "measure nat") auto

declare bitlen.simps [simp del]

definition pow2 :: "int \<Rightarrow> rat" where
  "pow2 k = (if 0 \<le> k then 2 ^ nat k else 1 / 2 ^ nat (- k))"

text \<open>\<open>ilog2 a\<close> is the binary exponent of a positive rational: \<open>2 ^ ilog2 a \<le> a < 2 ^ (ilog2 a + 1)\<close>.\<close>

definition ilog2 :: "rat \<Rightarrow> int" where
  "ilog2 a = (if 1 \<le> a then bitlen \<lfloor>a\<rfloor> - 1 else - bitlen (\<lceil>1 / a\<rceil> - 1))"

definition round_half_even :: "rat \<Rightarrow> int" where
  "round_half_even q =
     (let f = \<lfloor>q\<rfloor>; d = q - of_int f
      in if d < 1 / 2 then f else if 1 / 2 < d then f + 1 else if even f then f else f + 1)"

text \<open>
  Rounding to a format with \<open>prec\<close> significand bits whose least subnormal is \<open>2 ^ emin\<close> and
  whose values lie below \<open>2 ^ emax\<close>.
\<close>

definition round_to :: "nat \<Rightarrow> int \<Rightarrow> int \<Rightarrow> rat \<Rightarrow> float" where
  "round_to prec emin emax r =
     (if r = 0 then Finite 0
      else let a = \<bar>r\<bar>;
               e = max (ilog2 a - (int prec - 1)) emin;
               m = round_half_even (a / pow2 e);
               v = of_int m * pow2 e
           in if pow2 emax \<le> v then (if r < 0 then MinusInf else PlusInf)
              else if m = 0 then (if r < 0 then MinusZero else Finite 0)
              else Finite (if r < 0 then - v else v))"

definition round32 :: "rat \<Rightarrow> float" where
  "round32 = round_to 24 (- 149) 128"

definition round64 :: "rat \<Rightarrow> float" where
  "round64 = round_to 53 (- 1074) 1024"

definition is_zero :: "float \<Rightarrow> bool" where
  "is_zero x = (x = Finite 0 \<or> x = MinusZero)"

definition is_inf :: "float \<Rightarrow> bool" where
  "is_inf x = (x = PlusInf \<or> x = MinusInf)"

definition is_finite :: "float \<Rightarrow> bool" where
  "is_finite x = (case x of Finite r \<Rightarrow> True | MinusZero \<Rightarrow> True | _ \<Rightarrow> False)"

definition sign_bit :: "float \<Rightarrow> bool" where
  "sign_bit x = (case x of Finite r \<Rightarrow> r < 0 | MinusZero \<Rightarrow> True | PlusInf \<Rightarrow> False
                 | MinusInf \<Rightarrow> True | NaN \<Rightarrow> False)"

definition valof :: "float \<Rightarrow> rat" where
  "valof x = (case x of Finite r \<Rightarrow> r | _ \<Rightarrow> 0)"

definition zero_of :: "bool \<Rightarrow> float" where
  "zero_of s = (if s then MinusZero else Finite 0)"

definition inf_of :: "bool \<Rightarrow> float" where
  "inf_of s = (if s then MinusInf else PlusInf)"

definition add_rnd :: "(rat \<Rightarrow> float) \<Rightarrow> float \<Rightarrow> float \<Rightarrow> float" where
  "add_rnd rnd x y =
     (if x = NaN \<or> y = NaN then NaN
      else if is_inf x then (if is_inf y \<and> x \<noteq> y then NaN else x)
      else if is_inf y then y
      else let s = valof x + valof y
           in if s = 0 then (if x = MinusZero \<and> y = MinusZero then MinusZero else Finite 0)
              else rnd s)"

definition mul_rnd :: "(rat \<Rightarrow> float) \<Rightarrow> float \<Rightarrow> float \<Rightarrow> float" where
  "mul_rnd rnd x y =
     (if x = NaN \<or> y = NaN then NaN
      else if (is_inf x \<and> is_zero y) \<or> (is_zero x \<and> is_inf y) then NaN
      else if is_inf x \<or> is_inf y then inf_of (sign_bit x \<noteq> sign_bit y)
      else if is_zero x \<or> is_zero y then zero_of (sign_bit x \<noteq> sign_bit y)
      else rnd (valof x * valof y))"

definition div_rnd :: "(rat \<Rightarrow> float) \<Rightarrow> float \<Rightarrow> float \<Rightarrow> float" where
  "div_rnd rnd x y =
     (if x = NaN \<or> y = NaN then NaN
      else if (is_inf x \<and> is_inf y) \<or> (is_zero x \<and> is_zero y) then NaN
      else if is_inf x \<or> is_zero y then inf_of (sign_bit x \<noteq> sign_bit y)
      else if is_inf y \<or> is_zero x then zero_of (sign_bit x \<noteq> sign_bit y)
      else rnd (valof x / valof y))"

definition fneg :: "float \<Rightarrow> float" where
  "fneg x = (case x of Finite r \<Rightarrow> (if r = 0 then MinusZero else Finite (- r))
             | MinusZero \<Rightarrow> Finite 0 | PlusInf \<Rightarrow> MinusInf | MinusInf \<Rightarrow> PlusInf | NaN \<Rightarrow> NaN)"

text \<open>
  The comparisons of C on floating values: every comparison with a NaN is false, the two
  zeros are equal.
\<close>

definition fle :: "float \<Rightarrow> float \<Rightarrow> bool" where
  "fle x y = (x \<noteq> NaN \<and> y \<noteq> NaN \<and>
     (x = MinusInf \<or> y = PlusInf \<or> (is_finite x \<and> is_finite y \<and> valof x \<le> valof y)))"

definition flt :: "float \<Rightarrow> float \<Rightarrow> bool" where
  "flt x y = (x \<noteq> NaN \<and> y \<noteq> NaN \<and>
     ((x = MinusInf \<and> y \<noteq> MinusInf) \<or> (y = PlusInf \<and> x \<noteq> PlusInf) \<or>
      (is_finite x \<and> is_finite y \<and> valof x < valof y)))"

text \<open>
  The operators of the type are those of C on \<^verbatim>\<open>float\<close> operands: \<open>x + y\<close>, \<open>x - y\<close>,
  \<open>x * y\<close>, \<open>x / y\<close>, \<open>- x\<close>, \<open>x \<le> y\<close> and \<open>x < y\<close>. Only the notation is shared with the
  number types: no algebraic law is assumed of them.
\<close>

instantiation float :: "{zero, one, plus, minus, uminus, times, inverse, ord}"
begin

definition zero_float :: float where
  "zero_float = Finite 0"

definition one_float :: float where
  "one_float = Finite 1"

definition plus_float :: "float \<Rightarrow> float \<Rightarrow> float" where
  "plus_float x y = add_rnd round32 x y"

definition uminus_float :: "float \<Rightarrow> float" where
  "uminus_float x = fneg x"

definition minus_float :: "float \<Rightarrow> float \<Rightarrow> float" where
  "minus_float x y = add_rnd round32 x (fneg y)"

definition times_float :: "float \<Rightarrow> float \<Rightarrow> float" where
  "times_float x y = mul_rnd round32 x y"

definition divide_float :: "float \<Rightarrow> float \<Rightarrow> float" where
  "divide_float x y = div_rnd round32 x y"

definition inverse_float :: "float \<Rightarrow> float" where
  "inverse_float x = div_rnd round32 (Finite 1) x"

definition less_eq_float :: "float \<Rightarrow> float \<Rightarrow> bool" where
  "less_eq_float x y = fle x y"

definition less_float :: "float \<Rightarrow> float \<Rightarrow> bool" where
  "less_float x y = flt x y"

instance ..

end

text \<open>
  \<^verbatim>\<open>sqrtf\<close> is correctly rounded. For a positive \<open>r\<close> the integer square root \<open>s\<close> of
  \<open>\<lfloor>r * 4 ^ k\<rfloor>\<close> has more than 25 bits, so the exact root, which lies in \<open>[s, s + 1)\<close> before
  scaling, rounds as \<open>s\<close> does when it is \<open>s\<close> and as \<open>s + 1/2\<close> does otherwise.
\<close>

function isqrt :: "int \<Rightarrow> int" where
  "isqrt n = (if n < 4 then (if n \<le> 0 then 0 else 1)
              else let r = 2 * isqrt (n div 4) in if (r + 1) * (r + 1) \<le> n then r + 1 else r)"
  by pat_completeness auto
termination
  by (relation "measure nat") auto

declare isqrt.simps [simp del]

definition sqrt_scaled :: "rat \<Rightarrow> rat" where
  "sqrt_scaled r =
     (let k = nat (max 0 (26 - ilog2 r div 2));
          n = r * 4 ^ k;
          s = isqrt \<lfloor>n\<rfloor>
      in (if of_int (s * s) = n then of_int s else of_int s + 1 / 2) / 2 ^ k)"

definition sqrtf :: "float \<Rightarrow> float" where
  "sqrtf x = (case x of Finite r \<Rightarrow> (if r < 0 then NaN else if r = 0 then Finite 0
                                       else round32 (sqrt_scaled r))
              | MinusZero \<Rightarrow> MinusZero | PlusInf \<Rightarrow> PlusInf | MinusInf \<Rightarrow> NaN | NaN \<Rightarrow> NaN)"

text \<open>
  \<^verbatim>\<open>fminf\<close> returns the other argument when one is a NaN, and otherwise the first argument
  when it is less than the second and the second when it is not. (Which zero it returns for
  zeros of different sign is left open by C; the C library returns the second argument for
  arguments that compare equal.)
\<close>

definition fminf :: "float \<Rightarrow> float \<Rightarrow> float" where
  "fminf x y = (if x = NaN then y else if y = NaN then x else if x < y then x else y)"

text \<open>Conversion of an \<^verbatim>\<open>int\<close> to \<^verbatim>\<open>float\<close> rounds to nearest.\<close>

definition float_of_int :: "int \<Rightarrow> float" where
  "float_of_int i = round32 (of_int i)"

text \<open>
  The cast \<^verbatim>\<open>(int) x\<close> truncates towards zero. When the truncated value does not fit an
  \<^verbatim>\<open>int\<close>, or \<open>x\<close> is an infinity or a NaN, C leaves the behaviour undefined: the result
  is \<open>None\<close>.
\<close>

definition int_of_float :: "float \<Rightarrow> int option" where
  "int_of_float x =
     (case x of
        Finite r \<Rightarrow> (let t = (if 0 \<le> r then \<lfloor>r\<rfloor> else \<lceil>r\<rceil>)
                     in if - (2 ^ 31) \<le> t \<and> t < 2 ^ 31 then Some t else None)
      | MinusZero \<Rightarrow> Some 0
      | _ \<Rightarrow> None)"

section \<open>Configuration and geometry of the glyphs\<close>

text \<open>The variables of \<^verbatim>\<open>main\<close> that the command line sets.\<close>

record Config =
  cfg_speedA :: float
  cfg_speedB :: float
  cfg_W :: float
  cfg_H :: float
  cfg_tilt :: float
  cfg_spacing_factor :: float
  cfg_seg_w :: float
  cfg_seg_t :: float
  cfg_point_len :: float
  cfg_light_x :: float
  cfg_light_y :: float
  cfg_contrast :: float
  cfg_density :: float
  cfg_palette :: string
  cfg_manual_zoom :: float

definition NUM_SEGMENTS :: nat where
  "NUM_SEGMENTS = 14"

definition horiz_len :: "Config \<Rightarrow> float" where
  "horiz_len cfg = cfg_W cfg / Finite 2 - cfg_seg_w cfg / Finite 2"

definition vert_outer_len :: "Config \<Rightarrow> float" where
  "vert_outer_len cfg = cfg_H cfg / Finite 2 - cfg_seg_w cfg"

definition quarter_w :: "Config \<Rightarrow> float" where
  "quarter_w cfg = cfg_W cfg / Finite 4"

definition quarter_h :: "Config \<Rightarrow> float" where
  "quarter_h cfg = cfg_H cfg / Finite 4"

definition vert_inner_len :: "Config \<Rightarrow> float" where
  "vert_inner_len cfg = quarter_h cfg - cfg_seg_w cfg / Finite 2"

definition diag_len :: "Config \<Rightarrow> float" where
  "diag_len cfg =
     sqrtf (quarter_w cfg * quarter_w cfg + quarter_h cfg * quarter_h cfg) - cfg_seg_w cfg"

definition segment_lengths :: "Config \<Rightarrow> float list" where
  "segment_lengths cfg =
     [horiz_len cfg, vert_outer_len cfg, vert_outer_len cfg, horiz_len cfg,
      vert_outer_len cfg, vert_outer_len cfg,
      horiz_len cfg, horiz_len cfg, diag_len cfg, vert_inner_len cfg, diag_len cfg,
      diag_len cfg, vert_inner_len cfg, diag_len cfg]"

definition char_spacing :: "Config \<Rightarrow> float" where
  "char_spacing cfg = cfg_W cfg * cfg_spacing_factor cfg"

section \<open>The projector\<close>

text \<open>
  What C leaves undefined and the program can reach is a result of its own: a conversion
  to \<^verbatim>\<open>int\<close> of a value that does not fit, and an access outside a buffer.
\<close>

datatype fault = UndefinedConversion | OutOfBounds

record RenderContext =
  zbuffer :: "float list"
  bbuffer :: string
  sw :: int
  sh :: int
  cosA :: float
  sinA :: float
  cosB :: float
  sinB :: float
  zoom :: float
  tilt_factor :: float
  light_x :: float
  light_y :: float
  contrast :: float
  palette :: string
  palette_len :: nat

record SegmentDef =
  pos_x :: float
  pos_y :: float
  rot_z_rad :: float
  cos_ra :: float
  sin_ra :: float

definition CAMERA_DISTANCE :: float where
  "CAMERA_DISTANCE = Finite 25"

text \<open>
  \<^verbatim>\<open>project_and_draw\<close>, lines 160 to 169: the shear, the rotation around the Y axis, the
  rotation around the X axis and the translation. The result is \<open>(rot_x, final_y, final_z)\<close>.
\<close>

definition camera_space :: "float \<Rightarrow> float \<Rightarrow> float \<Rightarrow> RenderContext \<Rightarrow> float \<times> float \<times> float" where
  "camera_space x0 y z ctx =
     (let x = x0 + y * tilt_factor ctx;
          rot_x = x * cosB ctx - z * sinB ctx;
          rot_z = x * sinB ctx + z * cosB ctx;
          final_y = y * cosA ctx - rot_z * sinA ctx;
          final_z = y * sinA ctx + rot_z * cosA ctx + CAMERA_DISTANCE
      in (rot_x, final_y, final_z))"

text \<open>Lines 177 and 178: the screen column \<open>xp\<close> and row \<open>yp\<close>, each a cast to \<^verbatim>\<open>int\<close>.\<close>

definition screen_cell :: "float \<Rightarrow> float \<Rightarrow> float \<Rightarrow> RenderContext \<Rightarrow> (int \<times> int) option" where
  "screen_cell rot_x final_y ooz ctx =
     (case int_of_float (float_of_int (sw ctx) / Finite 2 + zoom ctx * Finite 2 * rot_x * ooz) of
        None \<Rightarrow> None
      | Some xp \<Rightarrow>
          (case int_of_float (float_of_int (sh ctx) / Finite 2 - zoom ctx * final_y * ooz) of
             None \<Rightarrow> None
           | Some yp \<Rightarrow> Some (xp, yp)))"

text \<open>Lines 187 to 192: the rotated normal and the luminance \<open>L\<close>.\<close>

definition luminance :: "float \<Rightarrow> float \<Rightarrow> float \<Rightarrow> RenderContext \<Rightarrow> float" where
  "luminance nx ny nz ctx =
     (let n_rot_x = nx * cosB ctx - nz * sinB ctx;
          n_rot_z = nx * sinB ctx + nz * cosB ctx;
          n_final_y = ny * cosA ctx - n_rot_z * sinA ctx
      in n_final_y * light_y ctx + n_rot_x * light_x ctx)"

text \<open>
  Lines 196 and 197: the cast of \<open>L * contrast\<close> and the clamp. The comparison with
  \<^verbatim>\<open>palette_len\<close> and the subtraction \<^verbatim>\<open>palette_len - 1\<close> are in \<^verbatim>\<open>size_t\<close>; the result is stored
  into an \<^verbatim>\<open>int\<close>.
\<close>

definition palette_index :: "float \<Rightarrow> RenderContext \<Rightarrow> int option" where
  "palette_index L ctx =
     (case int_of_float (L * contrast ctx) of
        None \<Rightarrow> None
      | Some palette_idx \<Rightarrow>
          Some (if palette_idx < 0 then 0
                else if int (palette_len ctx) \<le> palette_idx
                  then int32 (size_t (int (palette_len ctx) - 1))
                else palette_idx))"

definition project_and_draw ::
  "float \<Rightarrow> float \<Rightarrow> float \<Rightarrow> float \<Rightarrow> float \<Rightarrow> float \<Rightarrow> RenderContext \<Rightarrow> fault + RenderContext" where
  "project_and_draw x y z nx ny nz ctx =
     (case camera_space x y z ctx of (rot_x, final_y, final_z) \<Rightarrow>
        if final_z \<le> 0 then Inr ctx
        else
          let ooz = 1 / final_z in
          (case screen_cell rot_x final_y ooz ctx of
             None \<Rightarrow> Inl UndefinedConversion
           | Some (xp, yp) \<Rightarrow>
               let buffer_idx = int32 (xp + int32 (sw ctx * yp)) in
               if xp < 0 \<or> sw ctx \<le> xp \<or> yp < 0 \<or> sh ctx \<le> yp then Inr ctx
               else if buffer_idx < 0 \<or> length (zbuffer ctx) \<le> nat buffer_idx then Inl OutOfBounds
               else if ooz \<le> zbuffer ctx ! nat buffer_idx then Inr ctx
               else
                 (case palette_index (luminance nx ny nz ctx) ctx of
                    None \<Rightarrow> Inl UndefinedConversion
                  | Some palette_idx \<Rightarrow>
                      if palette_idx < 0 \<or> length (palette ctx) \<le> nat palette_idx
                         \<or> length (bbuffer ctx) \<le> nat buffer_idx
                      then Inl OutOfBounds
                      else Inr (ctx\<lparr>zbuffer := (zbuffer ctx)[nat buffer_idx := ooz],
                                    bbuffer := (bbuffer ctx)[nat buffer_idx :=
                                                 palette ctx ! nat palette_idx]\<rparr>))))"

section \<open>The segment rasterizer\<close>

definition draw_rotated_point ::
  "float \<Rightarrow> float \<Rightarrow> float \<Rightarrow> float \<Rightarrow> float \<Rightarrow> SegmentDef \<Rightarrow> float \<Rightarrow> RenderContext
   \<Rightarrow> fault + RenderContext" where
  "draw_rotated_point px py pz nx ny def char_center_x ctx =
     (let rpx = px * cos_ra def - py * sin_ra def;
          rpy = px * sin_ra def + py * cos_ra def;
          rnx = nx * cos_ra def - ny * sin_ra def;
          rny = nx * sin_ra def + ny * cos_ra def
      in project_and_draw (rpx + pos_x def + char_center_x) (rpy + pos_y def) pz rnx rny 0 ctx)"

text \<open>
  A C loop \<^verbatim>\<open>for (i = init; cond(i); i = step(i)) body\<close> over a state \<open>s\<close>, started at
  \<open>i\<close>. The loops of \<^verbatim>\<open>draw_pointy_segment\<close> count in \<^verbatim>\<open>float\<close>: a step that rounding
  absorbs (\<open>i + density = i\<close>) makes them run forever. Not returning is the value \<open>None\<close>; a
  fault in the body ends the loop.
\<close>

partial_function (option) for_loop ::
  "('i \<Rightarrow> bool) \<Rightarrow> ('i \<Rightarrow> 'i) \<Rightarrow> ('i \<Rightarrow> 's \<Rightarrow> (fault + 's) option) \<Rightarrow> 'i \<Rightarrow> 's
   \<Rightarrow> (fault + 's) option" where
  "for_loop cond step body i s =
     (if cond i then
        (case body i s of
           None \<Rightarrow> None
         | Some (Inl e) \<Rightarrow> Some (Inl e)
         | Some (Inr s1) \<Rightarrow> for_loop cond step body (step i) s1)
      else Some (Inr s))"

declare for_loop.simps [code]

text \<open>One call after another: the second runs on the state the first returns.\<close>

definition and_then :: "fault + 's \<Rightarrow> ('s \<Rightarrow> fault + 's) \<Rightarrow> fault + 's" where
  "and_then r f = (case r of Inl e \<Rightarrow> Inl e | Inr s \<Rightarrow> f s)"

text \<open>Lines 240 to 247: the two flat faces.\<close>

definition flat_faces ::
  "float \<Rightarrow> float \<Rightarrow> float \<Rightarrow> SegmentDef \<Rightarrow> float \<Rightarrow> float \<Rightarrow> RenderContext
   \<Rightarrow> (fault + RenderContext) option" where
  "flat_faces len seg_w seg_t def char_center_x density ctx =
     for_loop (\<lambda>i. i < len / Finite 2) (\<lambda>i. i + density)
       (\<lambda>i. for_loop (\<lambda>j. j < seg_t / Finite 2) (\<lambda>j. j + density)
          (\<lambda>j ctx1. Some (and_then
             (draw_rotated_point i (seg_w / Finite 2) j 0 1 def char_center_x ctx1)
             (draw_rotated_point i (- seg_w / Finite 2) j 0 (- 1) def char_center_x)))
          (- seg_t / Finite 2))
       (- len / Finite 2) ctx"

text \<open>Lines 256 to 271: the four triangular faces of the pointed ends.\<close>

definition end_caps ::
  "float \<Rightarrow> float \<Rightarrow> float \<Rightarrow> float \<Rightarrow> float \<Rightarrow> float \<Rightarrow> SegmentDef \<Rightarrow> float \<Rightarrow> float
   \<Rightarrow> RenderContext \<Rightarrow> (fault + RenderContext) option" where
  "end_caps len half_w seg_t point_len cnx cny def char_center_x density ctx =
     for_loop (\<lambda>u. u < point_len) (\<lambda>u. u + density)
       (\<lambda>u. for_loop (\<lambda>pz. pz < seg_t / Finite 2) (\<lambda>pz. pz + density)
          (\<lambda>pz ctx1.
             let yp = half_w * (1 - u / point_len);
                 p1 = len / Finite 2 + u;
                 p2 = - len / Finite 2 - u
             in Some (and_then (and_then (and_then
                  (draw_rotated_point p1 yp pz cnx cny def char_center_x ctx1)
                  (draw_rotated_point p1 (- yp) pz cnx (- cny) def char_center_x))
                  (draw_rotated_point p2 yp pz (- cnx) cny def char_center_x))
                  (draw_rotated_point p2 (- yp) pz (- cnx) (- cny) def char_center_x)))
          (- seg_t / Finite 2))
       0 ctx"

text \<open>
  Line 251, the length of the slope normal of an end cap, and the constant \<^verbatim>\<open>1e-5\<close> of line
  252, a \<^verbatim>\<open>double\<close>: the comparison is made in \<^verbatim>\<open>double\<close>, where the \<^verbatim>\<open>float\<close> operand keeps
  its value.
\<close>

definition slope_normal_length :: "float \<Rightarrow> float \<Rightarrow> float" where
  "slope_normal_length seg_w point_len =
     (let half_w = seg_w / Finite 2 in sqrtf (half_w * half_w + point_len * point_len))"

definition end_cap_threshold :: float where
  "end_cap_threshold = round64 (1 / 100000)"

definition draw_pointy_segment ::
  "float \<Rightarrow> float \<Rightarrow> float \<Rightarrow> float \<Rightarrow> SegmentDef \<Rightarrow> float \<Rightarrow> float \<Rightarrow> RenderContext
   \<Rightarrow> (fault + RenderContext) option" where
  "draw_pointy_segment len seg_w seg_t point_len def char_center_x density ctx =
     (case flat_faces len seg_w seg_t def char_center_x density ctx of
        None \<Rightarrow> None
      | Some (Inl e) \<Rightarrow> Some (Inl e)
      | Some (Inr ctx1) \<Rightarrow>
          let half_w = seg_w / Finite 2;
              nl = slope_normal_length seg_w point_len
          in if nl < end_cap_threshold then Some (Inr ctx1)
             else
               let cnx = half_w / nl;
                   cny = point_len / nl
               in end_caps len half_w seg_t point_len cnx cny def char_center_x density ctx1)"

section \<open>The font table\<close>

definition ASCII_OFFSET :: int where
  "ASCII_OFFSET = 32"

definition SUPPORTED_CHARS :: int where
  "SUPPORTED_CHARS = 96"

text \<open>Segments are bit-packed: 0=A, 1=B, 2=C, 3=D, 4=E, 5=F, 6=G1, 7=G2, 8=H, 9=I, 10=J, 11=K, 12=L, 13=M.\<close>

definition FourteenSegmentASCII :: "16 word list" where
  "FourteenSegmentASCII = [
      0b00000000000000, 0b10000000000110, 0b00001000000010, 0b01001011001110, 0b01001011101101, 0b11111111100100, 0b10001101011001, 0b00001000000000,
      0b10010000000000, 0b00100100000000, 0b11111111000000, 0b01001011000000, 0b00100000000000, 0b00000011000000, 0b10000000000000, 0b00110000000000,
      0b00110000111111, 0b00010000000110, 0b00000011011011, 0b00000010001111, 0b00000011100110, 0b10000001101001, 0b00000011111101, 0b00000000000111,
      0b00000011111111, 0b00000011101111, 0b01001000000000, 0b00101000000000, 0b10010001000000, 0b00000011001000, 0b00100110000000, 0b11000010000011,
      0b00001010111011, 0b00000011110111, 0b01001010001111, 0b00000000111001, 0b01001000001111, 0b00000001111001, 0b00000001110001, 0b00000010111101,
      0b00000011110110, 0b01001000001001, 0b00000000011110, 0b10010001110000, 0b00000000111000, 0b00010100110110, 0b10000100110110, 0b00000000111111,
      0b00000011110011, 0b10000000111111, 0b10000011110011, 0b00000011101101, 0b01001000000001, 0b00000000111110, 0b00110000110000, 0b10100000110110,
      0b10110100000000, 0b00000011101110, 0b00110000001001, 0b00000000111001, 0b10000100000000, 0b00000000001111, 0b10100000000000, 0b00000000001000,
      0b00000100000000, 0b01000001011000, 0b10000001111000, 0b00000011011000, 0b00100010001110, 0b00100001011000, 0b01010011000000, 0b00010010001110,
      0b01000001110000, 0b01000000000000, 0b00101000010000, 0b11011000000000, 0b00000000110000, 0b01000011010100, 0b01000001010000, 0b00000011011100,
      0b00000101110000, 0b00010010000110, 0b00000001010000, 0b10000010001000, 0b00000001111000, 0b00000000011100, 0b00100000010000, 0b10100000010100,
      0b10110100000000, 0b00001010001110, 0b00100001001000, 0b00100101001001, 0b01001000000000, 0b10010010001001, 0b00110011000000, 0b00000000000000]"

text \<open>
  Lines 499 and 500, on the value \<open>c\<close> of the character: a code outside the table is replaced
  by that of the space before the table is indexed.
\<close>

definition seg_data_of :: "int \<Rightarrow> 16 word" where
  "seg_data_of c0 =
     (let c = (if c0 < ASCII_OFFSET \<or> ASCII_OFFSET + SUPPORTED_CHARS \<le> c0 then 32 else c0)
      in FourteenSegmentASCII ! nat (c - ASCII_OFFSET))"

text \<open>
  The value of a \<^verbatim>\<open>char\<close> of the text, \<^verbatim>\<open>char\<close> being signed: a byte from 128 on is negative.
  (Where \<^verbatim>\<open>char\<close> is unsigned such a byte is 128 or more; \<open>seg_data_of\<close> sends both to the space.)
\<close>

definition char_value :: "char \<Rightarrow> int" where
  "char_value ch = (let v = of_char ch in if v < 128 then v else v - 256)"

section \<open>The frame\<close>

text \<open>
  \<^verbatim>\<open>cosf\<close>, \<^verbatim>\<open>sinf\<close> and \<^verbatim>\<open>atan2f\<close> are the C library's; which \<^verbatim>\<open>float\<close> they return is
  the library's choice, so they are parameters of the model.
\<close>

record libm =
  cosf :: "float \<Rightarrow> float"
  sinf :: "float \<Rightarrow> float"
  atan2f :: "float \<Rightarrow> float \<Rightarrow> float"

text \<open>
  \<^verbatim>\<open>M_PI\<close> is a \<^verbatim>\<open>double\<close>: an operation with it is made in binary64, and its result is
  rounded to binary32 when it is stored into a \<^verbatim>\<open>float\<close>.
\<close>

definition M_PI :: float where
  "M_PI = round64 (314159265358979323846 / 100000000000000000000)"

definition to_float :: "float \<Rightarrow> float" where
  "to_float x = (case x of Finite r \<Rightarrow> round32 r | _ \<Rightarrow> x)"

text \<open>Lines 380 to 388: position and rotation in degrees of the fourteen segments.\<close>

definition seg_defs_init :: "libm \<Rightarrow> Config \<Rightarrow> SegmentDef list" where
  "seg_defs_init m cfg =
     (let W = cfg_W cfg; H = cfg_H cfg;
          quarter_w = W / Finite 4;
          quarter_h = H / Finite 4;
          diag_angle_rad = atan2f m quarter_h quarter_w;
          minus_diag = to_float (div_rnd round64 (- diag_angle_rad * Finite 180) M_PI);
          plus_diag = to_float (div_rnd round64 (diag_angle_rad * Finite 180) M_PI);
          seg = (\<lambda>x y r. \<lparr>pos_x = x, pos_y = y, rot_z_rad = r, cos_ra = 0, sin_ra = 0\<rparr>)
      in [seg 0 (H / Finite 2) 0, seg (W / Finite 2) (H / Finite 4) (Finite 90),
          seg (W / Finite 2) (- H / Finite 4) (Finite 90), seg 0 (- H / Finite 2) 0,
          seg (- W / Finite 2) (- H / Finite 4) (Finite 90),
          seg (- W / Finite 2) (H / Finite 4) (Finite 90),
          seg (- quarter_w) 0 0, seg quarter_w 0 0, seg (- quarter_w) quarter_h minus_diag,
          seg 0 quarter_h (Finite 90), seg quarter_w quarter_h plus_diag,
          seg (- quarter_w) (- quarter_h) plus_diag, seg 0 (- quarter_h) (Finite 90),
          seg quarter_w (- quarter_h) minus_diag])"

text \<open>Lines 389 to 395: degrees to radians, and the cosine and sine of each rotation.\<close>

definition seg_defs :: "libm \<Rightarrow> Config \<Rightarrow> SegmentDef list" where
  "seg_defs m cfg =
     map (\<lambda>d. let r = to_float (div_rnd round64 (mul_rnd round64 (rot_z_rad d) M_PI) (Finite 180))
              in d\<lparr>rot_z_rad := r, cos_ra := cosf m r, sin_ra := sinf m r\<rparr>)
         (seg_defs_init m cfg)"

text \<open>Lines 504 to 508: the segments of one character, \<open>i\<close> running over the indices given.\<close>

fun draw_segments ::
  "libm \<Rightarrow> Config \<Rightarrow> 16 word \<Rightarrow> float \<Rightarrow> nat list \<Rightarrow> RenderContext
   \<Rightarrow> (fault + RenderContext) option" where
  "draw_segments m cfg seg_data char_center_x [] ctx = Some (Inr ctx)"
| "draw_segments m cfg seg_data char_center_x (i # rest) ctx =
     (if (drop_bit i seg_data) AND 1 \<noteq> 0 then
        (case draw_pointy_segment (segment_lengths cfg ! i) (cfg_seg_w cfg) (cfg_seg_t cfg)
                (cfg_point_len cfg) (seg_defs m cfg ! i) char_center_x (cfg_density cfg) ctx of
           None \<Rightarrow> None
         | Some (Inl e) \<Rightarrow> Some (Inl e)
         | Some (Inr ctx1) \<Rightarrow> draw_segments m cfg seg_data char_center_x rest ctx1)
      else draw_segments m cfg seg_data char_center_x rest ctx)"

text \<open>
  Lines 497 to 509: the characters of the text from index \<open>char_idx\<close> on, \<open>cs\<close> being those
  that are left.
\<close>

fun draw_text ::
  "libm \<Rightarrow> Config \<Rightarrow> float \<Rightarrow> nat \<Rightarrow> string \<Rightarrow> RenderContext \<Rightarrow> (fault + RenderContext) option" where
  "draw_text m cfg start_x char_idx [] ctx = Some (Inr ctx)"
| "draw_text m cfg start_x char_idx (ch # cs) ctx =
     (let seg_data = seg_data_of (char_value ch);
          char_center_x = start_x + float_of_int (int char_idx) * char_spacing cfg
      in case draw_segments m cfg seg_data char_center_x [0..<NUM_SEGMENTS] ctx of
           None \<Rightarrow> None
         | Some (Inl e) \<Rightarrow> Some (Inl e)
         | Some (Inr ctx1) \<Rightarrow> draw_text m cfg start_x (Suc char_idx) cs ctx1)"

text \<open>
  The variables of \<^verbatim>\<open>main\<close> that the render loop updates. \<open>st_terminal_resized\<close> is the flag the
  signal handler sets, as the loop reads it in line 451.
\<close>

record LoopState =
  st_sw :: int
  st_sh :: int
  st_zoom :: float
  st_zbuffer :: "float list"
  st_bbuffer :: string
  st_A :: float
  st_B :: float
  st_terminal_resized :: bool

text \<open>
  What one pass of the loop takes from outside the program: the text to display as it stands
  in this pass (the words of the command line, or what \<^verbatim>\<open>strftime\<close> wrote), whether a
  \<^verbatim>\<open>SIGWINCH\<close> has set the flag since the pass before, the size the terminal reports, whether
  both calls of \<^verbatim>\<open>realloc\<close> return a buffer, and the indeterminate contents of the buffers
  they return.
\<close>

record Environment =
  env_text :: string
  env_sigwinch :: bool
  env_ws_col :: nat
  env_ws_row :: nat
  env_realloc_ok :: bool
  env_new_zbuffer :: "nat \<Rightarrow> float"
  env_new_bbuffer :: "nat \<Rightarrow> char"

definition SCREEN_PADDING_FACTOR :: float where
  "SCREEN_PADDING_FACTOR = round32 (85 / 100)"

text \<open>Lines 431 to 442. The length of the text is stored into an \<^verbatim>\<open>int\<close>.\<close>

definition text_len_of :: "string \<Rightarrow> int" where
  "text_len_of text = int32 (int (length text))"

definition start_x_of :: "Config \<Rightarrow> int \<Rightarrow> float" where
  "start_x_of cfg text_len =
     float_of_int (int32 (- int32 (text_len - 1))) * char_spacing cfg / Finite 2"

definition total_text_3d_width :: "Config \<Rightarrow> int \<Rightarrow> float" where
  "total_text_3d_width cfg text_len =
     (if 1 < text_len then float_of_int (int32 (text_len - 1)) * char_spacing cfg + cfg_W cfg
      else cfg_W cfg)"

text \<open>Lines 470 to 472.\<close>

definition auto_zoom :: "Config \<Rightarrow> int \<Rightarrow> int \<Rightarrow> float \<Rightarrow> float" where
  "auto_zoom cfg screen_w screen_h text_width =
     (let zoom_h = float_of_int screen_h * SCREEN_PADDING_FACTOR * CAMERA_DISTANCE / cfg_H cfg;
          zoom_w = float_of_int screen_w * SCREEN_PADDING_FACTOR * CAMERA_DISTANCE
                     / (text_width * Finite 2)
      in fminf zoom_h zoom_w / 1)"

text \<open>
  The number of \<^verbatim>\<open>float\<close> cells in \<open>n * sizeof(float)\<close> bytes, the product taken in
  \<^verbatim>\<open>size_t\<close>.
\<close>

definition float_cells :: "int \<Rightarrow> int" where
  "float_cells n = (n * 4 mod 2 ^ 64) div 4"

text \<open>
  Lines 451 to 478: the resize. \<open>None\<close> is the failure of \<^verbatim>\<open>realloc\<close>, after which the loop
  ends.
\<close>

definition handle_resize :: "Config \<Rightarrow> Environment \<Rightarrow> float \<Rightarrow> LoopState \<Rightarrow> LoopState option" where
  "handle_resize cfg env text_width st =
     (let screen_w = int32 (int (env_ws_col env));
          screen_h = int32 (int32 (int (env_ws_row env)) - 1);
          buffer_size = size_t (int32 (screen_w * screen_h))
      in if \<not> env_realloc_ok env then None
         else Some (st\<lparr>st_sw := screen_w, st_sh := screen_h,
                       st_zbuffer := map (env_new_zbuffer env) [0..<nat (float_cells buffer_size)],
                       st_bbuffer := map (env_new_bbuffer env) [0..<nat buffer_size],
                       st_zoom := (if cfg_manual_zoom cfg \<le> 0
                                   then auto_zoom cfg screen_w screen_h text_width
                                   else cfg_manual_zoom cfg),
                       st_terminal_resized := False\<rparr>))"

text \<open>\<^verbatim>\<open>memset\<close> over the first \<open>n\<close> cells of a buffer; past its end the write is a fault.\<close>

definition memset_cells :: "'a list \<Rightarrow> 'a \<Rightarrow> nat \<Rightarrow> fault + 'a list" where
  "memset_cells xs v n = (if n \<le> length xs then Inr (replicate n v @ drop n xs) else Inl OutOfBounds)"

text \<open>Lines 513 to 516: the rows written to the terminal.\<close>

definition screen_rows :: "RenderContext \<Rightarrow> string list" where
  "screen_rows ctx =
     map (\<lambda>y. take (nat (sw ctx)) (drop (y * nat (sw ctx)) (bbuffer ctx))) [0..<nat (sh ctx)]"

datatype frame_result = ReallocationFailed | Rendered LoopState "string list"

text \<open>
  Lines 480 to 521, the part of a pass that follows the resize: the render context is
  built, both buffers are cleared, the characters are drawn, the rows are printed and the
  angles advance.
\<close>

definition draw_frame ::
  "libm \<Rightarrow> Config \<Rightarrow> string \<Rightarrow> LoopState \<Rightarrow> (fault + frame_result) option" where
  "draw_frame m cfg text st1 =
     (let text_len = text_len_of text;
          start_x = start_x_of cfg text_len;
          n = size_t (int32 (st_sw st1 * st_sh st1))
      in case memset_cells (st_bbuffer st1) (CHR '' '') (nat n) of
           Inl e \<Rightarrow> Some (Inl e)
         | Inr bb \<Rightarrow>
        (case memset_cells (st_zbuffer st1) 0 (nat (float_cells n)) of
           Inl e \<Rightarrow> Some (Inl e)
         | Inr zb \<Rightarrow>
             let ctx = \<lparr>zbuffer = zb, bbuffer = bb, sw = st_sw st1, sh = st_sh st1,
                        cosA = cosf m (st_A st1), sinA = sinf m (st_A st1),
                        cosB = cosf m (st_B st1), sinB = sinf m (st_B st1),
                        zoom = st_zoom st1, tilt_factor = cfg_tilt cfg,
                        light_x = cfg_light_x cfg, light_y = cfg_light_y cfg,
                        contrast = cfg_contrast cfg,
                        palette = cfg_palette cfg, palette_len = length (cfg_palette cfg)\<rparr>
             in (case draw_text m cfg start_x 0 (take (nat text_len) text) ctx of
                   None \<Rightarrow> None
                 | Some (Inl e) \<Rightarrow> Some (Inl e)
                 | Some (Inr ctx1) \<Rightarrow>
                     Some (Inr (Rendered
                       (st1\<lparr>st_zbuffer := zbuffer ctx1, st_bbuffer := bbuffer ctx1,
                            st_A := st_A st1 + cfg_speedA cfg,
                            st_B := st_B st1 + cfg_speedB cfg\<rparr>)
                       (screen_rows ctx1))))))"

text \<open>
  One pass of the render loop, lines 430 to 521: the state after it and the rows it printed,
  or the failure of \<^verbatim>\<open>realloc\<close>.
\<close>

definition render_frame ::
  "libm \<Rightarrow> Config \<Rightarrow> Environment \<Rightarrow> LoopState \<Rightarrow> (fault + frame_result) option" where
  "render_frame m cfg env st =
     (let text_len = text_len_of (env_text env);
          text_width = total_text_3d_width cfg text_len
      in case (if st_terminal_resized st \<or> env_sigwinch env
               then handle_resize cfg env text_width st else Some st) of
           None \<Rightarrow> Some (Inr ReallocationFailed)
         | Some st1 \<Rightarrow> draw_frame m cfg (env_text env) st1)"

text \<open>
  The render loop, lines 429 to 544, over the passes it makes before an interrupt ends it, one
  environment for each: the rows printed by each pass. The loop also ends when \<^verbatim>\<open>realloc\<close>
  fails.
\<close>

fun main_loop ::
  "libm \<Rightarrow> Config \<Rightarrow> Environment list \<Rightarrow> LoopState \<Rightarrow> (fault + string list list) option" where
  "main_loop m cfg [] st = Some (Inr [])"
| "main_loop m cfg (env # envs) st =
     (case render_frame m cfg env st of
        None \<Rightarrow> None
      | Some (Inl e) \<Rightarrow> Some (Inl e)
      | Some (Inr ReallocationFailed) \<Rightarrow> Some (Inr [])
      | Some (Inr (Rendered st1 rows)) \<Rightarrow>
          (case main_loop m cfg envs st1 of
             None \<Rightarrow> None
           | Some (Inl e) \<Rightarrow> Some (Inl e)
           | Some (Inr printed) \<Rightarrow> Some (Inr (rows # printed))))"

text \<open>Lines 405 to 409 and 79: the state the loop starts in.\<close>

definition initial_state :: LoopState where
  "initial_state =
     \<lparr>st_sw = 0, st_sh = 0, st_zoom = Finite 1, st_zbuffer = [], st_bbuffer = [],
      st_A = 0, st_B = 0, st_terminal_resized = True\<rparr>"

text \<open>The buffers have the size of the screen: one cell for each column and row.\<close>

definition buffers_fit :: "LoopState \<Rightarrow> bool" where
  "buffers_fit st =
     (length (st_bbuffer st) = nat (size_t (int32 (st_sw st * st_sh st))) \<and>
      length (st_zbuffer st) = nat (float_cells (size_t (int32 (st_sw st * st_sh st)))))"

text \<open>Two environments that differ at most in the contents of the buffers \<^verbatim>\<open>realloc\<close> returns.\<close>

definition same_inputs :: "Environment \<Rightarrow> Environment \<Rightarrow> bool" where
  "same_inputs env1 env2 =
     (env_text env1 = env_text env2 \<and> env_sigwinch env1 = env_sigwinch env2 \<and>
      env_ws_col env1 = env_ws_col env2 \<and> env_ws_row env1 = env_ws_row env2 \<and>
      env_realloc_ok env1 = env_realloc_ok env2)"

section \<open>Concrete inputs\<close>

text \<open>The configuration \<^verbatim>\<open>main\<close> starts from, lines 53 to 66 and 323 to 329.\<close>

definition default_config :: Config where
  "default_config =
     \<lparr>cfg_speedA = round32 (4 / 100), cfg_speedB = round32 (2 / 100),
      cfg_W = Finite 8, cfg_H = Finite 12, cfg_tilt = round32 (3 / 10),
      cfg_spacing_factor = Finite (3 / 2),
      cfg_seg_w = Finite (7 / 4), cfg_seg_t = Finite (7 / 4), cfg_point_len = round32 (85 / 100),
      cfg_light_x = round32 (3 / 10), cfg_light_y = round32 (7 / 10),
      cfg_contrast = Finite 20, cfg_density = round32 (1 / 10),
      cfg_palette = ''.,-~:;=!*#$@'', cfg_manual_zoom = Finite (- 1)\<rparr>"

text \<open>A C library that answers every angle as it answers the angle 0; for concrete inputs only.\<close>

definition libm_at_zero :: libm where
  "libm_at_zero = \<lparr>cosf = (\<lambda>x. Finite 1), sinf = (\<lambda>x. Finite 0), atan2f = (\<lambda>y x. Finite 0)\<rparr>"

text \<open>
  A cleared screen of four columns and four rows, seen without rotation or shear, lit from
  above, with the default palette.
\<close>

definition small_ctx :: RenderContext where
  "small_ctx =
     \<lparr>zbuffer = replicate 16 0, bbuffer = replicate 16 (CHR '' ''), sw = 4, sh = 4,
      cosA = Finite 1, sinA = Finite 0, cosB = Finite 1, sinB = Finite 0,
      zoom = Finite 1, tilt_factor = Finite 0,
      light_x = Finite 0, light_y = Finite 1, contrast = Finite 20,
      palette = ''.,-~:;=!*#$@'', palette_len = 12\<rparr>"



section \<open>Properties of the floating-point operations\<close>

lemma pow2_powi: "pow2 k = 2 powi k"
  by (simp add: pow2_def power_int_def inverse_eq_divide power_one_over)

lemma pow2_pos: "0 < pow2 k"
  by (simp add: pow2_def)

lemma pow2_add: "pow2 (a + b) = pow2 a * pow2 b"
  by (simp add: pow2_powi power_int_add)

lemma pow2_less_iff: "pow2 a < pow2 b \<longleftrightarrow> a < b"
proof
  assume "pow2 a < pow2 b"
  show "a < b"
  proof (rule ccontr)
    assume "\<not> a < b"
    then have "b \<le> a" by simp
    then have "pow2 b \<le> pow2 a"
      unfolding pow2_powi by (intro power_int_increasing) auto
    with \<open>pow2 a < pow2 b\<close> show False by simp
  qed
next
  assume "a < b"
  then show "pow2 a < pow2 b"
    unfolding pow2_powi by (intro power_int_strict_increasing) auto
qed

lemma pow2_le_iff: "pow2 a \<le> pow2 b \<longleftrightarrow> a \<le> b"
  using pow2_less_iff [of b a] by (auto simp: not_less [symmetric])

lemma pow2_nat: "0 \<le> k \<Longrightarrow> pow2 k = 2 ^ nat k"
  by (simp add: pow2_def)

lemma bitlen_bounds:
  "0 < n \<Longrightarrow> 2 ^ nat (bitlen n - 1) \<le> n \<and> n < 2 ^ nat (bitlen n) \<and> 1 \<le> bitlen n"
proof (induction n rule: bitlen.induct)
  case (1 n)
  show ?case
  proof (cases "n div 2 = 0")
    case True
    with "1.prems" have "n = 1" by presburger
    then show ?thesis by (simp add: bitlen.simps)
  next
    case False
    with "1.prems" have pos: "0 < n div 2" by presburger
    define b where "b = bitlen (n div 2)"
    from "1.IH" [OF _ pos] "1.prems"
    have ih: "2 ^ nat (b - 1) \<le> n div 2" "n div 2 < 2 ^ nat b" "1 \<le> b"
      by (simp_all add: b_def)
    have bl: "bitlen n = 1 + b"
      using "1.prems" by (simp add: bitlen.simps [of n] b_def)
    have p: "(2::int) ^ nat b = 2 * 2 ^ nat (b - 1)"
    proof -
      from ih(3) have "nat b = Suc (nat (b - 1))" by simp
      then show ?thesis by simp
    qed
    have p2: "(2::int) ^ nat (1 + b) = 2 * 2 ^ nat b"
      using ih(3) by (simp add: nat_add_distrib)
    have "2 ^ nat b \<le> n" using ih(1) p by linarith
    moreover have "n < 2 ^ nat (1 + b)" using ih(2) p2 by linarith
    ultimately show ?thesis using bl ih(3) by simp
  qed
qed


lemma of_int_le_pow2: "n \<le> 2 ^ m \<Longrightarrow> (of_int n :: rat) \<le> 2 ^ m"
proof -
  assume "n \<le> 2 ^ m"
  then have "(of_int n :: rat) \<le> of_int (2 ^ m)" by (simp only: of_int_le_iff)
  then show ?thesis by simp
qed

lemma pow2_le_of_int: "2 ^ m \<le> n \<Longrightarrow> 2 ^ m \<le> (of_int n :: rat)"
proof -
  assume "2 ^ m \<le> n"
  then have "(of_int (2 ^ m) :: rat) \<le> of_int n" by (simp only: of_int_le_iff)
  then show ?thesis by simp
qed

lemma ilog2_bounds:
  assumes "0 < a"
  shows "pow2 (ilog2 a) \<le> a \<and> a < pow2 (ilog2 a + 1)"
proof (cases "1 \<le> a")
  case True
  define n where "n = \<lfloor>a\<rfloor>"
  have npos: "0 < n" using True by (simp add: n_def)
  from bitlen_bounds [OF npos]
  have b: "2 ^ nat (bitlen n - 1) \<le> n" "n < 2 ^ nat (bitlen n)" "1 \<le> bitlen n"
    by simp_all
  have il: "ilog2 a = bitlen n - 1"
    using True by (simp add: ilog2_def n_def)
  have "2 ^ nat (bitlen n - 1) \<le> (of_int n :: rat)"
    using b(1) by (rule pow2_le_of_int)
  moreover have "of_int n \<le> a" unfolding n_def by linarith
  ultimately have "2 ^ nat (bitlen n - 1) \<le> a" by linarith
  then have lo: "pow2 (bitlen n - 1) \<le> a"
    using b(3) by (simp add: pow2_nat)
  have "n + 1 \<le> 2 ^ nat (bitlen n)" using b(2) by simp
  then have "(of_int (n + 1) :: rat) \<le> 2 ^ nat (bitlen n)"
    by (rule of_int_le_pow2)
  moreover have "a < of_int (n + 1)"
    unfolding n_def by linarith
  ultimately have "a < 2 ^ nat (bitlen n)" by linarith
  then have hi: "a < pow2 (bitlen n)"
    using b(3) by (simp add: pow2_nat)
  show ?thesis using lo hi il by simp
next
  case False
  then have a1: "a < 1" by simp
  define n where "n = \<lceil>1 / a\<rceil>"
  define k where "k = bitlen (n - 1)"
  have x1: "1 < 1 / a" using assms a1 by simp
  then have n2: "2 \<le> n" unfolding n_def by linarith
  then have npos: "0 < n - 1" by simp
  from bitlen_bounds [OF npos]
  have b: "2 ^ nat (k - 1) \<le> n - 1" "n - 1 < 2 ^ nat k" "1 \<le> k"
    by (simp_all add: k_def)
  have il: "ilog2 a = - k"
    using False by (simp add: ilog2_def n_def k_def)
  have "n \<le> 2 ^ nat k" using b(2) by simp
  then have "(of_int n :: rat) \<le> 2 ^ nat k" by (rule of_int_le_pow2)
  moreover have "1 / a \<le> of_int n" unfolding n_def by linarith
  ultimately have "1 / a \<le> 2 ^ nat k" by linarith
  then have "1 / 2 ^ nat k \<le> a"
    using assms by (simp add: field_simps)
  then have lo: "pow2 (- k) \<le> a"
    using b(3) by (simp add: pow2_def)
  have "2 ^ nat (k - 1) \<le> (of_int (n - 1) :: rat)"
    using b(1) by (rule pow2_le_of_int)
  moreover have "of_int (n - 1) < 1 / a"
    unfolding n_def by linarith
  ultimately have "2 ^ nat (k - 1) < 1 / a" by linarith
  then have "a < 1 / 2 ^ nat (k - 1)"
    using assms by (simp add: field_simps)
  moreover have "pow2 (- k + 1) = 1 / 2 ^ nat (k - 1)"
  proof (cases "k = 1")
    case True
    then show ?thesis by (simp add: pow2_def)
  next
    case False
    with b(3) have "- k + 1 < 0" by simp
    then show ?thesis by (simp add: pow2_def)
  qed
  ultimately have hi: "a < pow2 (- k + 1)" by simp
  show ?thesis using lo hi il by simp
qed

lemma ilog2_unique:
  assumes "pow2 k \<le> a" and "a < pow2 (k + 1)"
  shows "ilog2 a = k"
proof -
  have apos: "0 < a" using assms(1) pow2_pos [of k] by simp
  from ilog2_bounds [OF apos]
  have b: "pow2 (ilog2 a) \<le> a" "a < pow2 (ilog2 a + 1)" by simp_all
  have "pow2 (ilog2 a) < pow2 (k + 1)" using b(1) assms(2) by simp
  then have "ilog2 a < k + 1" by (simp only: pow2_less_iff)
  moreover have "pow2 k < pow2 (ilog2 a + 1)" using b(2) assms(1) by simp
  then have "k < ilog2 a + 1" by (simp only: pow2_less_iff)
  ultimately show ?thesis by simp
qed

lemma round_half_even_of_int: "round_half_even (of_int m) = m"
  by (simp add: round_half_even_def)

lemma round_half_even_nonneg: "0 \<le> q \<Longrightarrow> 0 \<le> round_half_even q"
  by (auto simp add: round_half_even_def Let_def)

lemma round_half_even_le:
  assumes "q \<le> of_int N"
  shows "round_half_even q \<le> N"
proof (cases "q = of_int N")
  case True
  then show ?thesis by (simp add: round_half_even_of_int)
next
  case False
  with assms have "q < of_int N" by simp
  then have "\<lfloor>q\<rfloor> < N" by (simp add: floor_less_iff)
  then show ?thesis
    by (auto simp add: round_half_even_def Let_def)
qed


lemma round_to_exact:
  assumes pos: "0 < v0" and int: "v0 / pow2 (max (ilog2 v0 - (int p - 1)) emin) = of_int m'"
    and below: "v0 < pow2 emax" and abs: "\<bar>v\<bar> = v0"
  shows "round_to p emin emax v = Finite v"
proof -
  define e' where "e' = max (ilog2 v0 - (int p - 1)) emin"
  have ne: "pow2 e' \<noteq> 0" using pow2_pos [of e'] by simp
  have int': "v0 / pow2 e' = of_int m'" unfolding e'_def by (rule int)
  have prod: "of_int m' * pow2 e' = v0"
    using int' ne by (simp add: field_simps)
  have m0: "m' \<noteq> 0" using prod pos by auto
  have vne: "v \<noteq> 0" using abs pos by auto
  have sgn: "(if v < 0 then - v0 else v0) = v" using abs by auto
  have "round_to p emin emax v =
          (let m = round_half_even (v0 / pow2 e'); w = of_int m * pow2 e'
           in if pow2 emax \<le> w then (if v < 0 then MinusInf else PlusInf)
              else if m = 0 then (if v < 0 then MinusZero else Finite 0)
              else Finite (if v < 0 then - w else w))"
    unfolding round_to_def Let_def abs e'_def using vne by simp
  also have "\<dots> = Finite v"
    using below m0 abs by (auto simp add: Let_def int' round_half_even_of_int prod not_le)
  finally show ?thesis .
qed

lemma round_to_idem:
  assumes p: "0 < p" and res: "round_to p emin emax r = Finite v"
  shows "round_to p emin emax v = Finite v"
proof (cases "r = 0")
  case True
  with res show ?thesis by (simp add: round_to_def)
next
  case False
  define a where "a = \<bar>r\<bar>"
  define e where "e = max (ilog2 a - (int p - 1)) emin"
  define m where "m = round_half_even (a / pow2 e)"
  define v0 where "v0 = of_int m * pow2 e"
  have apos: "0 < a" using False by (simp add: a_def)
  from res False have below: "v0 < pow2 emax"
    by (simp add: round_to_def Let_def a_def [symmetric] e_def [symmetric] m_def [symmetric]
        v0_def [symmetric] not_le split: if_splits)
  from res False have v: "(m = 0 \<and> v = 0) \<or> (m \<noteq> 0 \<and> \<bar>v\<bar> = \<bar>v0\<bar>)"
    by (auto simp add: round_to_def Let_def a_def [symmetric] e_def [symmetric] m_def [symmetric]
        v0_def [symmetric] split: if_splits)
  have qpos: "0 \<le> a / pow2 e" using apos pow2_pos [of e] by simp
  have mnn: "0 \<le> m" unfolding m_def using qpos by (rule round_half_even_nonneg)
  from ilog2_bounds [OF apos] have hi: "a < pow2 (ilog2 a + 1)" by simp
  have "ilog2 a + 1 \<le> e + int p" by (simp add: e_def)
  then have "pow2 (ilog2 a + 1) \<le> pow2 (e + int p)" by (simp only: pow2_le_iff)
  with hi have "a < pow2 e * 2 ^ p" by (simp add: pow2_add pow2_nat)
  then have "a / pow2 e < 2 ^ p"
    using pow2_pos [of e] by (simp add: field_simps)
  then have "a / pow2 e \<le> of_int (2 ^ p)" by simp
  then have mle: "m \<le> 2 ^ p" unfolding m_def by (rule round_half_even_le)
  show ?thesis
  proof (cases "m = 0")
    case True
    with v have "v = 0" by simp
    then show ?thesis by (simp add: round_to_def)
  next
    case mne: False
    with mnn have mpos: "0 < m" by simp
    have v0pos: "0 < v0" unfolding v0_def using mpos pow2_pos [of e] by simp
    from v mne v0pos have absv: "\<bar>v\<bar> = v0" by simp
    define e' where "e' = max (ilog2 v0 - (int p - 1)) emin"
    have "\<exists>m'. v0 / pow2 e' = of_int m'"
    proof (cases "m = 2 ^ p")
      case True
      then have v0eq: "v0 = pow2 (e + int p)"
        by (simp add: v0_def pow2_add pow2_nat)
      have "ilog2 v0 = e + int p"
      proof (rule ilog2_unique)
        show "pow2 (e + int p) \<le> v0" by (simp add: v0eq)
        show "v0 < pow2 (e + int p + 1)" unfolding v0eq by (simp only: pow2_less_iff)
      qed
      moreover have "emin \<le> e" by (simp add: e_def)
      ultimately have e': "e' = e + 1" by (simp add: e'_def)
      have "pow2 (e + int p) = pow2 (e + 1) * pow2 (int p - 1)"
        by (simp flip: pow2_add)
      then have "v0 / pow2 e' = pow2 (int p - 1)"
        using pow2_pos [of "e + 1"] by (simp add: v0eq e')
      also have "\<dots> = of_int (2 ^ nat (int p - 1))"
        using p by (simp add: pow2_nat)
      finally show ?thesis by blast
    next
      case False
      with mle have "m < 2 ^ p" by simp
      then have "(of_int m :: rat) < 2 ^ p" by simp
      then have "v0 < pow2 (e + int p)"
        using pow2_pos [of e] by (simp add: v0_def pow2_add pow2_nat)
      moreover from ilog2_bounds [OF v0pos] have "pow2 (ilog2 v0) \<le> v0" by simp
      ultimately have "pow2 (ilog2 v0) < pow2 (e + int p)" by simp
      then have "ilog2 v0 < e + int p" by (simp only: pow2_less_iff)
      moreover have "emin \<le> e" by (simp add: e_def)
      ultimately have le: "e' \<le> e" by (simp add: e'_def)
      have "pow2 e = pow2 e' * pow2 (e - e')" by (simp flip: pow2_add)
      then have "v0 / pow2 e' = of_int m * pow2 (e - e')"
        using pow2_pos [of e'] by (simp add: v0_def)
      also have "\<dots> = of_int (m * 2 ^ nat (e - e'))"
        using le by (simp add: pow2_nat)
      finally show ?thesis by blast
    qed
    then obtain m' where "v0 / pow2 e' = of_int m'" ..
    then show ?thesis
      unfolding e'_def using v0pos below absv by (intro round_to_exact [where ?v0.0 = v0]) auto
  qed
qed

section \<open>The segment lengths and the character spacing\<close>

text \<open>
  C5. For every configuration the fourteen segment lengths are, by segment index
  (0=A, 1=B, 2=C, 3=D, 4=E, 5=F, 6=G1, 7=G2, 8=H, 9=I, 10=J, 11=K, 12=L, 13=M):
  \<open>W/2 - seg_w/2\<close> for the four horizontal segments A, D, G1, G2;
  \<open>H/2 - seg_w\<close> for the four outer vertical segments B, C, E, F;
  \<open>H/4 - seg_w/2\<close> for the two inner vertical bars I, L;
  \<open>sqrtf ((W/4)\<^sup>2 + (H/4)\<^sup>2) - seg_w\<close> for the four diagonals H, J, K, M;
  and the character spacing is \<open>W * spacing_factor\<close>. The arithmetic is that of
  \<^verbatim>\<open>float\<close>, a square is the product of the value with itself.
\<close>

theorem segment_lengths_formulas:
  "segment_lengths cfg =
     (let W = cfg_W cfg; H = cfg_H cfg; seg_w = cfg_seg_w cfg;
          horizontal = W / Finite 2 - seg_w / Finite 2;
          outer_vertical = H / Finite 2 - seg_w;
          inner_vertical = H / Finite 4 - seg_w / Finite 2;
          diagonal = sqrtf ((W / Finite 4) * (W / Finite 4) + (H / Finite 4) * (H / Finite 4)) - seg_w
      in [horizontal, outer_vertical, outer_vertical, horizontal, outer_vertical, outer_vertical,
          horizontal, horizontal, diagonal, inner_vertical, diagonal,
          diagonal, inner_vertical, diagonal])
   \<and> length (segment_lengths cfg) = NUM_SEGMENTS
   \<and> char_spacing cfg = cfg_W cfg * cfg_spacing_factor cfg"
  by (simp add: segment_lengths_def horiz_len_def vert_outer_len_def vert_inner_len_def
      diag_len_def quarter_w_def quarter_h_def char_spacing_def NUM_SEGMENTS_def Let_def)

section \<open>The font lookup\<close>

lemma draw_segments_no_bits:
  "draw_segments m cfg 0 char_center_x idxs ctx = Some (Inr ctx)"
  by (induction idxs) simp_all

text \<open>
  C4. For every character code below 32 or at or above 32 + 96 the lookup gives the mask of
  the space, which has no bit set, and the loop over the fourteen segments of that character
  returns the context as it was: no segment is rasterized.
\<close>

theorem font_lookup_outside_range:
  "c < 32 \<or> 32 + 96 \<le> c \<Longrightarrow>
     seg_data_of c = 0 \<and>
     draw_segments m cfg (seg_data_of c) char_center_x [0..<NUM_SEGMENTS] ctx = Some (Inr ctx)"
proof -
  assume outside: "c < 32 \<or> 32 + 96 \<le> c"
  have space: "FourteenSegmentASCII ! 0 = 0"
    by (simp add: FourteenSegmentASCII_def)
  from outside have "seg_data_of c = 0"
    by (auto simp add: seg_data_of_def ASCII_OFFSET_def SUPPORTED_CHARS_def space)
  then show ?thesis
    by (simp add: draw_segments_no_bits)
qed

theorem font_lookup_outside_range_witness:
  "((200::int) < 32 \<or> 32 + 96 \<le> (200::int)) \<and> seg_data_of 200 = 0 \<and>
   draw_segments libm_at_zero default_config (seg_data_of 200) (Finite 0) [0..<NUM_SEGMENTS] small_ctx
     = Some (Inr small_ctx)"
proof -
  have outside: "(200::int) < 32 \<or> 32 + 96 \<le> (200::int)"
    by simp
  show ?thesis
    by (rule conjI [OF outside font_lookup_outside_range [OF outside]])
qed

section \<open>Points behind the camera\<close>

text \<open>
  C2. For every point, normal and render context: when the depth \<open>final_z\<close> that the shear,
  the two rotations and the translation give satisfies \<open>final_z \<le> 0\<close>, \<open>project_and_draw\<close>
  returns the context it was given, so neither buffer is modified at any cell.
\<close>

theorem behind_camera_no_write:
  "camera_space x y z ctx = (rot_x, final_y, final_z) \<Longrightarrow> final_z \<le> 0 \<Longrightarrow>
     project_and_draw x y z nx ny nz ctx = Inr ctx"
  by (simp add: project_and_draw_def)

lemma camera_space_behind:
  "camera_space (Finite 1) (Finite 2) (Finite (- 30)) small_ctx = (Finite 1, Finite 2, Finite (- 5))"
  unfolding camera_space_def small_ctx_def CAMERA_DISTANCE_def by code_simp

theorem behind_camera_no_write_witness:
  "camera_space (Finite 1) (Finite 2) (Finite (- 30)) small_ctx = (Finite 1, Finite 2, Finite (- 5))
   \<and> Finite (- 5) \<le> (0 :: float)
   \<and> project_and_draw (Finite 1) (Finite 2) (Finite (- 30)) (Finite 0) (Finite 1) (Finite 0) small_ctx
       = Inr small_ctx"
proof -
  have behind: "Finite (- 5) \<le> (0 :: float)"
    by code_simp
  show ?thesis
    using camera_space_behind behind
      behind_camera_no_write [OF camera_space_behind behind] by blast
qed

section \<open>Degenerate end caps\<close>














end
